theory Spec2Isabelle
  imports Complex_Main
begin

section \<open>The pricing engine of preisrechner.py\<close>

text \<open>
  The core of the program is the dataclass \<open>PricingInputs\<close>, the rounding helper
  \<open>round_money\<close> and the function \<open>compute_cost\<close>. Python's \<open>float\<close> values are
  modelled as real numbers: sums, products and quotients are exact, and the representation
  error of binary floating point is not part of the model. Everything else follows the
  source line by line.
\<close>

subsection \<open>Data model\<close>

record PricingInputs =
  filament_used_g :: real
  print_time_h :: real
  filament_eur_per_kg :: real
  electricity_eur_per_kwh :: real
  avg_power_w :: real
  depreciation_eur_per_h :: real
  consumables_ratio :: real
  labor_hours :: real
  labor_rate_eur_per_h :: real
  risk_ratio :: real
  markup_ratio :: real
  friend_discount_ratio :: real
  packaging_shipping_eur :: real
  min_fee_eur :: real
  purge_waste_g :: real

text \<open>The only operation of \<open>compute_cost\<close> that can raise is the true division.\<close>

datatype py_error = ZeroDivisionError

definition py_truediv :: "real \<Rightarrow> real \<Rightarrow> py_error + real" where
  "py_truediv a b = (if b = 0 then Inl ZeroDivisionError else Inr (a / b))"

text \<open>
  Python's \<open>max(a, b)\<close> keeps its first argument unless a later one is strictly greater.
\<close>

definition py_max :: "real \<Rightarrow> real \<Rightarrow> real" where
  "py_max a b = (if a < b then b else a)"

subsection \<open>Rounding\<close>

text \<open>
  The built-in \<open>round(x, ndigits)\<close> of Python 3 rounds to the nearest multiple of
  \<open>10 ^ (- ndigits)\<close> and resolves an exact tie towards the even neighbour.
\<close>

definition round_half_even :: "real \<Rightarrow> int" where
  "round_half_even y =
     (let f = \<lfloor>y\<rfloor>; d = y - of_int f
      in if d < 1 / 2 then f
         else if 1 / 2 < d then f + 1
         else if even f then f else f + 1)"

definition py_round :: "real \<Rightarrow> nat \<Rightarrow> real" where
  "py_round x ndigits = of_int (round_half_even (x * 10 ^ ndigits)) / 10 ^ ndigits"

definition round_money :: "real \<Rightarrow> real" where
  "round_money x = py_round (x + 1 / 10 ^ 9) 2"

subsection \<open>The computation\<close>

text \<open>
  The local variables of \<open>compute_cost\<close> as they stand after line 66, before the two
  dictionaries are built. The fields carry the names of the source; inside the definition
  the same variables are written with a prime.
\<close>

record cost_locals =
  grams_total :: real
  material_eur :: real
  kwh :: real
  energy_eur :: real
  machine_eur :: real
  labor_eur :: real
  consumables_eur :: real
  risk_buffer_eur :: real
  subtotal_before_markup :: real
  markup_eur :: real
  pre_discount_total :: real
  friend_discount_eur :: real
  total :: real
  final_total_eur :: real

definition compute_cost_locals :: "PricingInputs \<Rightarrow> py_error + cost_locals" where
  "compute_cost_locals inputs =
     (let grams_total' = filament_used_g inputs + purge_waste_g inputs
      in case py_truediv grams_total' 1000 of
           Inl e \<Rightarrow> Inl e
         | Inr kg \<Rightarrow>
      let material_eur' = kg * filament_eur_per_kg inputs
      in case py_truediv (avg_power_w inputs * print_time_h inputs) 1000 of
           Inl e \<Rightarrow> Inl e
         | Inr kwh' \<Rightarrow>
      let energy_eur' = kwh' * electricity_eur_per_kwh inputs;
          machine_eur' = print_time_h inputs * depreciation_eur_per_h inputs;
          labor_eur' = labor_hours inputs * labor_rate_eur_per_h inputs;
          consumables_eur' = (material_eur' + energy_eur') * consumables_ratio inputs;
          risk_buffer_eur' = (material_eur' + energy_eur' + machine_eur') * risk_ratio inputs;
          subtotal_before_markup' =
            material_eur' + energy_eur' + machine_eur' + labor_eur' + consumables_eur'
              + risk_buffer_eur';
          markup_eur' = subtotal_before_markup' * markup_ratio inputs;
          pre_discount_total' = subtotal_before_markup' + markup_eur';
          friend_discount_eur' = pre_discount_total' * friend_discount_ratio inputs;
          total' = pre_discount_total' - friend_discount_eur' + packaging_shipping_eur inputs;
          final_total_eur' = py_max total' (min_fee_eur inputs)
      in Inr \<lparr>grams_total = grams_total', material_eur = material_eur', kwh = kwh',
              energy_eur = energy_eur', machine_eur = machine_eur', labor_eur = labor_eur',
              consumables_eur = consumables_eur', risk_buffer_eur = risk_buffer_eur',
              subtotal_before_markup = subtotal_before_markup', markup_eur = markup_eur',
              pre_discount_total = pre_discount_total',
              friend_discount_eur = friend_discount_eur', total = total',
              final_total_eur = final_total_eur'\<rparr>)"

text \<open>
  The two dictionaries keep their insertion order, so each is a list of pairs. The key of the
  third entry ends in the letter sharp s, two bytes in UTF-8.
\<close>

definition key_maschine :: string where
  "key_maschine = ''Maschine/Verschlei'' @ [CHR 0xC3, CHR 0x9F]"

definition breakdown_of :: "PricingInputs \<Rightarrow> cost_locals \<Rightarrow> (string \<times> real) list" where
  "breakdown_of inputs v =
     [(''Material'', round_money (material_eur v)),
      (''Energie'', round_money (energy_eur v)),
      (key_maschine, round_money (machine_eur v)),
      (''Arbeit'', round_money (labor_eur v)),
      (''Verbrauchsmaterial-Puffer'', round_money (consumables_eur v)),
      (''Risiko-Puffer'', round_money (risk_buffer_eur v)),
      (''Zwischensumme'', round_money (subtotal_before_markup v)),
      (''Marge/Aufschlag'', round_money (markup_eur v)),
      (''Summe vor Rabatt'', round_money (pre_discount_total v)),
      (''Freundschaftsrabatt'', round_money (friend_discount_eur v)),
      (''Verpackung/Versand'', round_money (packaging_shipping_eur inputs)),
      (''Empfohlener Preis'', round_money (final_total_eur v))]"

definition meta_of :: "cost_locals \<Rightarrow> (string \<times> real) list" where
  "meta_of v =
     [(''kwh'', py_round (kwh v) 3),
      (''filament_total_g'', py_round (grams_total v) 1)]"

definition compute_cost ::
  "PricingInputs \<Rightarrow> py_error + ((string \<times> real) list \<times> (string \<times> real) list)" where
  "compute_cost inputs =
     (case compute_cost_locals inputs of
        Inl e \<Rightarrow> Inl e
      | Inr v \<Rightarrow> Inr (breakdown_of inputs v, meta_of v))"

text \<open>
  The callers read the result through subscripts, as in \<open>breakdown['Empfohlener Preis']\<close>
  and \<open>meta['kwh']\<close>. \<open>pre_floor_total\<close> reads the local variable \<open>total\<close> of line 65.
\<close>

definition breakdown_get :: "PricingInputs \<Rightarrow> string \<Rightarrow> real option" where
  "breakdown_get inputs k =
     (case compute_cost inputs of Inl e \<Rightarrow> None | Inr (b, m) \<Rightarrow> map_of b k)"


definition pre_floor_total :: "PricingInputs \<Rightarrow> real option" where
  "pre_floor_total inputs =
     (case compute_cost_locals inputs of Inl e \<Rightarrow> None | Inr v \<Rightarrow> Some (total v))"

subsection \<open>Inputs used below\<close>

text \<open>The concrete scenario of the specification, and the same with a full discount.\<close>

definition scenario :: PricingInputs where
  "scenario =
     \<lparr>filament_used_g = 100, print_time_h = 6, filament_eur_per_kg = 22,
      electricity_eur_per_kwh = 25 / 100, avg_power_w = 80, depreciation_eur_per_h = 5 / 10,
      consumables_ratio = 5 / 100, labor_hours = 1, labor_rate_eur_per_h = 30,
      risk_ratio = 10 / 100, markup_ratio = 0, friend_discount_ratio = 20 / 100,
      packaging_shipping_eur = 0, min_fee_eur = 10, purge_waste_g = 0\<rparr>"

definition scenario_full_discount :: PricingInputs where
  "scenario_full_discount = scenario\<lparr>friend_discount_ratio := 1\<rparr>"






subsection \<open>The algorithm as the specification words it\<close>

















section \<open>Properties of the rounding\<close>














section \<open>Properties of the computation\<close>





section \<open>The claims\<close>

subsection \<open>The concrete scenario\<close>

text \<open>
  Claim C1, counterexample. On the scenario the entry \<open>Empfohlener Preis\<close> is not 28.78:
  the price is rounded from the full-precision total 28.7744, not from the difference of the
  rounded lines 35.97 and 7.19.
\<close>

theorem scenario_price_counterexample:
  "breakdown_get scenario ''Empfohlener Preis'' \<noteq> Some (2878 / 100)"
  by (simp add: scenario_def breakdown_get_def compute_cost_def compute_cost_locals_def
      py_truediv_def Let_def breakdown_of_def round_money_def py_round_def
      round_half_even_def py_max_def key_maschine_def)

text \<open>
  Claim C1, as amended. On the scenario \<open>compute_cost\<close> returns Material 2.20,
  Energie 0.12, Maschine 3.00, Arbeit 30.00, Verbrauchsmaterial-Puffer 0.12,
  Risiko-Puffer 0.53, Zwischensumme 35.97, Marge 0.00, Summe vor Rabatt 35.97,
  Freundschaftsrabatt 7.19, Verpackung/Versand 0.00, Empfohlener Preis 28.77, and the meta
  values kwh 0.48 and filament_total_g 100.
\<close>

theorem scenario_result:
  "compute_cost scenario =
     Inr ([(''Material'', 220 / 100), (''Energie'', 12 / 100), (key_maschine, 300 / 100),
           (''Arbeit'', 3000 / 100), (''Verbrauchsmaterial-Puffer'', 12 / 100),
           (''Risiko-Puffer'', 53 / 100), (''Zwischensumme'', 3597 / 100),
           (''Marge/Aufschlag'', 0), (''Summe vor Rabatt'', 3597 / 100),
           (''Freundschaftsrabatt'', 719 / 100), (''Verpackung/Versand'', 0),
           (''Empfohlener Preis'', 2877 / 100)],
          [(''kwh'', 48 / 100), (''filament_total_g'', 100)])"
  by (simp add: scenario_def compute_cost_def compute_cost_locals_def py_truediv_def Let_def
      breakdown_of_def meta_of_def round_money_def py_round_def round_half_even_def
      py_max_def)

text \<open>
  Claim C9. On the scenario with \<open>friend_discount_ratio = 1.0\<close> the pre-floor total is
  at most zero, and the entry \<open>Empfohlener Preis\<close> is exactly the minimum fee 10.0.
\<close>

theorem full_discount_hits_floor:
  "\<exists>t. pre_floor_total scenario_full_discount = Some t \<and> t \<le> 0
     \<and> min_fee_eur scenario_full_discount = 10
     \<and> breakdown_get scenario_full_discount ''Empfohlener Preis'' = Some 10"
  by (simp add: scenario_full_discount_def scenario_def pre_floor_total_def breakdown_get_def
      compute_cost_def compute_cost_locals_def py_truediv_def Let_def breakdown_of_def
      round_money_def py_round_def round_half_even_def py_max_def key_maschine_def)

subsection \<open>Totality and the order of derivation\<close>




subsection \<open>The minimum fee\<close>

text \<open>
  Claim C10. Two records that differ in \<open>min_fee_eur\<close> only give the same meta and the
  same eleven breakdown entries other than \<open>Empfohlener Preis\<close>.
\<close>

theorem min_fee_only_moves_price:
  "\<exists>b m b' m'. compute_cost i = Inr (b, m)
     \<and> compute_cost (i\<lparr>min_fee_eur := f\<rparr>) = Inr (b', m')
     \<and> m' = m
     \<and> filter (\<lambda>e. fst e \<noteq> ''Empfohlener Preis'') b'
         = filter (\<lambda>e. fst e \<noteq> ''Empfohlener Preis'') b
     \<and> length (filter (\<lambda>e. fst e \<noteq> ''Empfohlener Preis'') b) = 11"
  by (simp add: compute_cost_def compute_cost_locals_def py_truediv_def Let_def
      breakdown_of_def meta_of_def key_maschine_def)




subsection \<open>Signs and monotonicity\<close>






subsection \<open>The rounding rule\<close>




end
